theory Spec2Isabelle
  imports Complex_Main
begin

section \<open>The collections listing endpoint (get-collections v4)\<close>

text \<open>
  A shallow embedding of \<^verbatim>\<open>src/api/endpoints/collections/get-collections/v4.ts\<close>:
  the request schema (\<^verbatim>\<open>validate.query\<close>), the handler that assembles the
  predicate list and the order clause, the derivation of the continuation from the last
  row, and the projection of a row into the response. The code delegates to three
  collaborators that are not part of the file: the Joi schema library, the SQL store
  behind \<^verbatim>\<open>edb.manyOrNone\<close>, and the helpers \<^verbatim>\<open>formatEth\<close>,
  \<^verbatim>\<open>fromBuffer\<close>, \<^verbatim>\<open>toBuffer\<close> and
  \<^verbatim>\<open>CollectionSets.getCollectionsIds\<close>. The helpers are parameters of the model;
  the schema library and the store are modelled by their documented behaviour.
\<close>

subsection \<open>Errors\<close>

text \<open>
  The codes of the schema library that the rules of this schema can raise. The argument is
  the key of the query object.
\<close>

datatype joi_error =
    StringEmpty string
  | StringPattern string
  | AnyOnly string
  | NumberMin string
  | NumberMax string
  | ObjectMissing

text \<open>
  The error kinds a caller can observe. A schema failure is answered before the handler
  runs (\<open>InvalidRequest\<close>). Inside the handler, everything thrown by the resolver or the
  store is logged and thrown again (\<open>UpstreamFailure\<close>). \<open>InvalidCursor\<close> is the third
  kind of the interface description; no path of the source constructs it.
\<close>

datatype error = InvalidRequest joi_error | InvalidCursor | UpstreamFailure

subsection \<open>Strings: case folding, numeric text\<close>

definition lower_char :: "char \<Rightarrow> char" where
  "lower_char c =
     (case map_of (zip ''ABCDEFGHIJKLMNOPQRSTUVWXYZ'' ''abcdefghijklmnopqrstuvwxyz'') c of
        None \<Rightarrow> c
      | Some l \<Rightarrow> l)"

definition toLowerCase :: "string \<Rightarrow> string" where
  "toLowerCase s = map lower_char s"

text \<open>JavaScript truthiness of a value that is a string, \<open>null\<close> or \<open>undefined\<close>.\<close>

definition truthy :: "string option \<Rightarrow> bool" where
  "truthy v = (case v of None \<Rightarrow> False | Some s \<Rightarrow> s \<noteq> [])"

text \<open>
  The store keeps volumes and sale values as fixed-point integers (\<open>numeric\<close>); the driver
  hands them to the handler as decimal text, and the handler sends the continuation back
  as text. \<open>numeric_out\<close> is the text of a stored value, \<open>numeric_in\<close> the store's reading
  of a text parameter compared with a numeric column; it fails on anything that is not an
  optionally signed run of decimal digits. (A real store also reads fractions and
  exponents; the handler itself only ever emits the text of a stored integer.)
\<close>

definition digit_char :: "nat \<Rightarrow> char" where
  "digit_char d = ''0123456789'' ! d"

definition digit_of :: "char \<Rightarrow> nat option" where
  "digit_of c = map_of (zip ''0123456789'' [0, 1, 2, 3, 4, 5, 6, 7, 8, 9]) c"

function digits :: "nat \<Rightarrow> string" where
  "digits n = (if n < 10 then [digit_char n] else digits (n div 10) @ [digit_char (n mod 10)])"
  by pat_completeness auto
termination
  by (relation "measure id") auto

declare digits.simps [simp del]

definition numeric_out :: "int \<Rightarrow> string" where
  "numeric_out i = (if i < 0 then CHR ''-'' # digits (nat (- i)) else digits (nat i))"

fun read_digits :: "nat \<Rightarrow> string \<Rightarrow> nat option" where
  "read_digits acc [] = Some acc"
| "read_digits acc (c # cs) =
     (case digit_of c of None \<Rightarrow> None | Some d \<Rightarrow> read_digits (10 * acc + d) cs)"

definition numeric_in :: "string \<Rightarrow> int option" where
  "numeric_in s =
     (case s of
        [] \<Rightarrow> None
      | c # cs \<Rightarrow>
          if c = CHR ''-'' then
            (if cs = [] then None else map_option (\<lambda>n. - int n) (read_digits 0 cs))
          else map_option int (read_digits 0 (c # cs)))"

subsection \<open>The request and its schema\<close>

text \<open>
  The query object. Before validation a key that the caller did not send is \<open>None\<close>;
  the transport has already separated booleans and integers from text.
\<close>

record request =
  collectionsSetId :: "string option"
  community :: "string option"
  contract :: "string option"
  name :: "string option"
  slug :: "string option"
  sortBy :: "string option"
  includeTopBid :: "bool option"
  limit :: "int option"
  continuation :: "string option"

text \<open>\<^verbatim>\<open>Joi.string().lowercase()\<close>: the empty string is refused, the value is folded.\<close>

definition joi_string_lowercase :: "string \<Rightarrow> string option \<Rightarrow> joi_error + string option" where
  "joi_string_lowercase key v =
     (case v of
        None \<Rightarrow> Inr None
      | Some s \<Rightarrow> if s = [] then Inl (StringEmpty key) else Inr (Some (toLowerCase s)))"

definition is_hex :: "char \<Rightarrow> bool" where
  "is_hex c = (c \<in> set ''0123456789abcdefABCDEF'')"

text \<open>The pattern \<^verbatim>\<open>/^0x[a-fA-F0-9]{40}$/\<close>.\<close>

definition address_pattern :: "string \<Rightarrow> bool" where
  "address_pattern s = (take 2 s = ''0x'' \<and> length s = 42 \<and> list_all is_hex (drop 2 s))"

definition joi_contract :: "string option \<Rightarrow> joi_error + string option" where
  "joi_contract v =
     (case joi_string_lowercase ''contract'' v of
        Inl e \<Rightarrow> Inl e
      | Inr None \<Rightarrow> Inr None
      | Inr (Some s) \<Rightarrow> if address_pattern s then Inr (Some s) else Inl (StringPattern ''contract''))"

definition sortBy_valid :: "string list" where
  "sortBy_valid = [''1DayVolume'', ''7DayVolume'', ''30DayVolume'', ''allTimeVolume'']"

text \<open>\<^verbatim>\<open>Joi.string().valid(...).default("allTimeVolume")\<close>.\<close>

definition joi_sortBy :: "string option \<Rightarrow> joi_error + string option" where
  "joi_sortBy v =
     (case v of
        None \<Rightarrow> Inr (Some ''allTimeVolume'')
      | Some s \<Rightarrow> if s \<in> set sortBy_valid then Inr (Some s) else Inl (AnyOnly ''sortBy''))"

text \<open>\<^verbatim>\<open>Joi.number().integer().min(1).max(20).default(20)\<close>.\<close>

definition joi_limit :: "int option \<Rightarrow> joi_error + int option" where
  "joi_limit v =
     (case v of
        None \<Rightarrow> Inr (Some 20)
      | Some n \<Rightarrow>
          if n < 1 then Inl (NumberMin ''limit'')
          else if 20 < n then Inl (NumberMax ''limit'')
          else Inr (Some n))"

text \<open>\<^verbatim>\<open>Joi.string()\<close>.\<close>

definition joi_string :: "string \<Rightarrow> string option \<Rightarrow> joi_error + string option" where
  "joi_string key v =
     (case v of
        None \<Rightarrow> Inr None
      | Some s \<Rightarrow> if s = [] then Inl (StringEmpty key) else Inr (Some s))"

text \<open>
  \<^verbatim>\<open>.or("collectionsSetId", "community", "contract", "name", "sortBy")\<close>: at least one
  of the peers is present in the object it is given.
\<close>

definition joi_or :: "request \<Rightarrow> bool" where
  "joi_or q =
     (collectionsSetId q \<noteq> None \<or> community q \<noteq> None \<or> contract q \<noteq> None \<or>
      name q \<noteq> None \<or> sortBy q \<noteq> None)"

text \<open>
  The schema as the library runs it: the keys are validated in the order of their
  declaration, the first failure ends the validation, each key's result (converted, or its
  default when the key is absent) replaces the key in the object, and the relationship
  between keys is checked last, on the object that already carries the defaults.
\<close>

definition validate :: "request \<Rightarrow> joi_error + request" where
  "validate q =
     (case joi_string_lowercase ''collectionsSetId'' (collectionsSetId q) of Inl e \<Rightarrow> Inl e
      | Inr v1 \<Rightarrow>
     (case joi_string_lowercase ''community'' (community q) of Inl e \<Rightarrow> Inl e
      | Inr v2 \<Rightarrow>
     (case joi_contract (contract q) of Inl e \<Rightarrow> Inl e
      | Inr v3 \<Rightarrow>
     (case joi_string_lowercase ''name'' (name q) of Inl e \<Rightarrow> Inl e
      | Inr v4 \<Rightarrow>
     (case joi_string_lowercase ''slug'' (slug q) of Inl e \<Rightarrow> Inl e
      | Inr v5 \<Rightarrow>
     (case joi_sortBy (sortBy q) of Inl e \<Rightarrow> Inl e
      | Inr v6 \<Rightarrow>
     (case joi_limit (limit q) of Inl e \<Rightarrow> Inl e
      | Inr v8 \<Rightarrow>
     (case joi_string ''continuation'' (continuation q) of Inl e \<Rightarrow> Inl e
      | Inr v9 \<Rightarrow>
     (let q' = \<lparr> collectionsSetId = v1, community = v2, contract = v3, name = v4,
                 slug = v5, sortBy = v6,
                 includeTopBid = Some (case includeTopBid q of None \<Rightarrow> False | Some b \<Rightarrow> b),
                 limit = v8, continuation = v9 \<rparr>
      in if joi_or q' then Inr q' else Inl ObjectMissing)))))))))"

subsection \<open>Helpers outside the file\<close>

text \<open>
  \<^verbatim>\<open>formatEth\<close>, \<^verbatim>\<open>fromBuffer\<close> and \<^verbatim>\<open>toBuffer\<close> of
  \<^verbatim>\<open>@/common/utils\<close> and the collection-set resolver are imported by the file and
  defined elsewhere. They are parameters: \<open>'b\<close> is the binary form of an address, \<open>'d\<close>
  the display number. The resolver returns a list of identifiers, or \<open>None\<close> when it
  throws.
\<close>

record ('b, 'd) env =
  formatEth :: "string \<Rightarrow> 'd"
  fromBuffer :: "'b \<Rightarrow> string"
  toBuffer :: "string \<Rightarrow> 'b"
  getCollectionsIds :: "string \<Rightarrow> string list option"

subsection \<open>The tables the query reads\<close>

text \<open>
  The columns of \<^verbatim>\<open>collections\<close> that the query selects or filters on, with the
  \<^verbatim>\<open>metadata\<close> object flattened to the six keys the query extracts. Columns that
  the query only passes through keep the type the driver delivers.
\<close>

record 'b collection =
  c_id :: string
  c_slug :: "string option"
  c_name :: "string option"
  c_community :: "string option"
  c_imageUrl :: "string option"
  c_bannerImageUrl :: "string option"
  c_discordUrl :: "string option"
  c_description :: "string option"
  c_externalUrl :: "string option"
  c_twitterUsername :: "string option"
  c_contract :: 'b
  c_token_set_id :: "string option"
  c_token_count :: int
  c_floor_sell_value :: "int option"
  c_day1_volume :: "int option"
  c_day7_volume :: "int option"
  c_day30_volume :: "int option"
  c_all_time_volume :: "int option"
  c_day1_rank :: "int option"
  c_day7_rank :: "int option"
  c_day30_rank :: "int option"
  c_all_time_rank :: "int option"
  c_day1_volume_change :: "real option"
  c_day7_volume_change :: "real option"
  c_day30_volume_change :: "real option"
  c_day1_floor_sell_value :: "int option"
  c_day7_floor_sell_value :: "int option"
  c_day30_floor_sell_value :: "int option"

record token =
  t_collection_id :: string
  t_image :: "string option"

record 'b token_set =
  ts_id :: string
  ts_top_buy_value :: "int option"
  ts_top_buy_maker :: "'b option"

record 'b store =
  tbl_collections :: "'b collection list"
  tbl_tokens :: "token list"
  tbl_token_sets :: "'b token_set list"

text \<open>
  A row as the handler receives it (\<^verbatim>\<open>r\<close> in the source). The numeric columns
  arrive as decimal text: the handler copies the continuation from a volume column of the
  last row, and both the response schema and the request schema declare the continuation
  a string. The top bid columns are null when the join is not part of the query.
\<close>

record 'b row =
  r_id :: string
  r_slug :: "string option"
  r_name :: "string option"
  r_image :: "string option"
  r_banner :: "string option"
  r_discord_url :: "string option"
  r_description :: "string option"
  r_external_url :: "string option"
  r_twitter_username :: "string option"
  r_contract :: 'b
  r_token_set_id :: "string option"
  r_token_count :: int
  r_sample_images :: "string option list"
  r_floor_sell_value :: "string option"
  r_day1_volume :: "string option"
  r_day7_volume :: "string option"
  r_day30_volume :: "string option"
  r_all_time_volume :: "string option"
  r_day1_rank :: "int option"
  r_day7_rank :: "int option"
  r_day30_rank :: "int option"
  r_all_time_rank :: "int option"
  r_day1_volume_change :: "real option"
  r_day7_volume_change :: "real option"
  r_day30_volume_change :: "real option"
  r_day1_floor_sell_value :: "string option"
  r_day7_floor_sell_value :: "string option"
  r_day30_floor_sell_value :: "string option"
  r_top_buy_value :: "string option"
  r_top_buy_maker :: "'b option"

subsection \<open>The composed query\<close>

datatype column = Day1Volume | Day7Volume | Day30Volume | AllTimeVolume


text \<open>
  The predicate fragments the handler can push onto \<^verbatim>\<open>conditions\<close>. Each refers to
  a named parameter of the query object; \<open>condition_sql\<close> is the fragment's text in the
  source.
\<close>

datatype condition =
    CommunityEq
  | CollectionsIdIn
  | ContractEq
  | NameILike
  | SlugEq
  | VolumeLt column





text \<open>
  The values the fragments name, as the handler leaves them in the query object:
  \<^verbatim>\<open>contract\<close> replaced by its binary form, \<^verbatim>\<open>name\<close> wrapped in
  \<^verbatim>\<open>%\<close>, \<^verbatim>\<open>collectionsIds\<close> added. The source joins the identifiers with
  \<^verbatim>\<open>','\<close> and splices the text between the quotes of the \<^verbatim>\<open>IN\<close> list; the
  model keeps the list (identifiers carry no quote character).
\<close>

record 'b params =
  p_community :: "string option"
  p_collectionsIds :: "string list option"
  p_contract :: "'b option"
  p_name :: "string option"
  p_slug :: "string option"
  p_continuation :: "string option"
  p_limit :: "int option"

record 'b composed =
  conditions :: "condition list"
  orderBy :: column
  topBid :: bool
  params :: "'b params"

text \<open>A truthy string, or nothing.\<close>

definition given :: "string option \<Rightarrow> string option" where
  "given v = (if truthy v then v else None)"

text \<open>\<^verbatim>\<open>if (v) { conditions.push(c) }\<close>: what the statement adds to the list.\<close>

definition pushed :: "string option \<Rightarrow> condition \<Rightarrow> condition list" where
  "pushed v c = (if truthy v then [c] else [])"

text \<open>
  The collection set: the resolver is called when an identifier is given; an empty answer
  sets no parameter and pushes nothing.
\<close>

definition resolve :: "('b, 'd) env \<Rightarrow> request \<Rightarrow> error + string list option" where
  "resolve u q =
     (case given (collectionsSetId q) of
        None \<Rightarrow> Inr None
      | Some sid \<Rightarrow>
          (case getCollectionsIds u sid of
             None \<Rightarrow> Inl UpstreamFailure
           | Some ids \<Rightarrow> Inr (if ids = [] then None else Some ids)))"

text \<open>The \<^verbatim>\<open>// Filters\<close> part, in the order of the source.\<close>

definition filters :: "request \<Rightarrow> string list option \<Rightarrow> condition list" where
  "filters q collectionsIds =
     pushed (community q) CommunityEq @
     (case collectionsIds of None \<Rightarrow> [] | Some _ \<Rightarrow> [CollectionsIdIn]) @
     pushed (contract q) ContractEq @
     pushed (name q) NameILike @
     pushed (slug q) SlugEq"

text \<open>
  The first \<^verbatim>\<open>switch (query.sortBy)\<close>: the column of the continuation predicate and
  the column of the order clause, case by case. \<^verbatim>\<open>orderBy\<close> is initialised to the
  all-time clause, which the last case leaves in place.
\<close>

definition sort_switch :: "string option \<Rightarrow> column \<times> column" where
  "sort_switch s =
     (if s = Some ''1DayVolume'' then (Day1Volume, Day1Volume)
      else if s = Some ''7DayVolume'' then (Day7Volume, Day7Volume)
      else if s = Some ''30DayVolume'' then (Day30Volume, Day30Volume)
      else (AllTimeVolume, AllTimeVolume))"

text \<open>The \<^verbatim>\<open>// Sorting\<close> part: what is pushed, and the order clause.\<close>

definition sorting :: "request \<Rightarrow> condition list \<times> column" where
  "sorting q =
     (pushed (continuation q) (VolumeLt (fst (sort_switch (sortBy q)))),
      snd (sort_switch (sortBy q)))"

definition query_params :: "('b, 'd) env \<Rightarrow> request \<Rightarrow> string list option \<Rightarrow> 'b params" where
  "query_params u q collectionsIds =
     \<lparr> p_community = community q,
       p_collectionsIds = collectionsIds,
       p_contract = map_option (toBuffer u) (given (contract q)),
       p_name = map_option (\<lambda>n. ''%'' @ n @ ''%'') (given (name q)),
       p_slug = slug q,
       p_continuation = continuation q,
       p_limit = limit q \<rparr>"

definition assemble :: "('b, 'd) env \<Rightarrow> request \<Rightarrow> string list option \<Rightarrow> 'b composed" where
  "assemble u q collectionsIds =
     \<lparr> conditions = filters q collectionsIds @ fst (sorting q),
       orderBy = snd (sorting q),
       topBid = (includeTopBid q = Some True),
       params = query_params u q collectionsIds \<rparr>"

text \<open>The handler up to the query: it fails only when the resolver does.\<close>

definition compose :: "('b, 'd) env \<Rightarrow> request \<Rightarrow> error + 'b composed" where
  "compose u q =
     (case resolve u q of Inl e \<Rightarrow> Inl e | Inr collectionsIds \<Rightarrow> Inr (assemble u q collectionsIds))"


subsection \<open>The store\<close>

text \<open>
  Modelled from the spec: the store query interface behind \<^verbatim>\<open>edb.manyOrNone\<close>
  (\<^verbatim>\<open>@/common/db\<close>, absent from the sources). It executes the parameterised
  read-only query and returns zero or more rows, or fails with a store-level error. The
  semantics are those of the SQL the handler writes: a conjunction of the fragments (a
  comparison with a null column is not true), one descending order key with nulls last,
  a limit. Rows that tie on the order key keep the order of the table, and the outer
  select, with or without the lateral join, keeps the rows and the order of the inner one.
  The call fails when a parameter that the text names is missing, when the text of the
  continuation does not read as a number, and when the limit is negative.
\<close>

fun column_value :: "column \<Rightarrow> 'b collection \<Rightarrow> int option" where
  "column_value Day1Volume c = c_day1_volume c"
| "column_value Day7Volume c = c_day7_volume c"
| "column_value Day30Volume c = c_day30_volume c"
| "column_value AllTimeVolume c = c_all_time_volume c"

text \<open>
  The pattern language of \<^verbatim>\<open>LIKE\<close>: \<^verbatim>\<open>%\<close> matches any run of characters,
  \<^verbatim>\<open>_\<close> one character, a backslash takes the next character literally.
  \<^verbatim>\<open>ILIKE\<close> folds the case of both sides.
\<close>

fun like :: "string \<Rightarrow> string \<Rightarrow> bool" where
  "like [] t = (t = [])"
| "like (p # ps) t =
     (if p = CHR ''%'' then
        (like ps t \<or> (case t of [] \<Rightarrow> False | _ # t' \<Rightarrow> like (p # ps) t'))
      else if p = CHR ''_'' then (case t of [] \<Rightarrow> False | _ # t' \<Rightarrow> like ps t')
      else if p = CHR 0x5C then
        (case ps of
           [] \<Rightarrow> False
         | e # ps' \<Rightarrow> (case t of [] \<Rightarrow> False | x # t' \<Rightarrow> x = e \<and> like ps' t'))
      else (case t of [] \<Rightarrow> False | x # t' \<Rightarrow> x = p \<and> like ps t'))"

definition ilike :: "string \<Rightarrow> string \<Rightarrow> bool" where
  "ilike t pat = like (toLowerCase pat) (toLowerCase t)"

text \<open>
  A fragment can be evaluated when the parameter it names exists and, for the comparison
  with a volume column, when the text of the continuation reads as a number.
\<close>

fun bound :: "'b params \<Rightarrow> condition \<Rightarrow> bool" where
  "bound p CommunityEq = (p_community p \<noteq> None)"
| "bound p CollectionsIdIn = (p_collectionsIds p \<noteq> None)"
| "bound p ContractEq = (p_contract p \<noteq> None)"
| "bound p NameILike = (p_name p \<noteq> None)"
| "bound p SlugEq = (p_slug p \<noteq> None)"
| "bound p (VolumeLt col) =
     (case p_continuation p of None \<Rightarrow> False | Some s \<Rightarrow> numeric_in s \<noteq> None)"

fun satisfies :: "'b params \<Rightarrow> condition \<Rightarrow> 'b collection \<Rightarrow> bool" where
  "satisfies p CommunityEq c =
     (case p_community p of None \<Rightarrow> False | Some v \<Rightarrow> c_community c = Some v)"
| "satisfies p CollectionsIdIn c =
     (case p_collectionsIds p of None \<Rightarrow> False | Some ids \<Rightarrow> c_id c \<in> set ids)"
| "satisfies p ContractEq c =
     (case p_contract p of None \<Rightarrow> False | Some b \<Rightarrow> c_contract c = b)"
| "satisfies p NameILike c =
     (case p_name p of
        None \<Rightarrow> False
      | Some pat \<Rightarrow> (case c_name c of None \<Rightarrow> False | Some n \<Rightarrow> ilike n pat))"
| "satisfies p SlugEq c =
     (case p_slug p of None \<Rightarrow> False | Some v \<Rightarrow> c_slug c = Some v)"
| "satisfies p (VolumeLt col) c =
     (case p_continuation p of
        None \<Rightarrow> False
      | Some s \<Rightarrow>
          (case numeric_in s of
             None \<Rightarrow> False
           | Some k \<Rightarrow> (case column_value col c of None \<Rightarrow> False | Some v \<Rightarrow> v < k)))"

definition where_holds :: "'b params \<Rightarrow> condition list \<Rightarrow> 'b collection \<Rightarrow> bool" where
  "where_holds p cs c = list_all (\<lambda>k. satisfies p k c) cs"

text \<open>
  \<^verbatim>\<open>ORDER BY key DESC\<close> with the nulls last or first: the rows with a value, sorted in
  descending order by a stable sort, and the rows without.
\<close>

definition order_desc :: "bool \<Rightarrow> ('a \<Rightarrow> int option) \<Rightarrow> 'a list \<Rightarrow> 'a list" where
  "order_desc nulls_last key xs =
     (let valued = sort_key (\<lambda>x. - the (key x)) (filter (\<lambda>x. key x \<noteq> None) xs);
          nulls = filter (\<lambda>x. key x = None) xs
      in if nulls_last then valued @ nulls else nulls @ valued)"

text \<open>
  The lateral join of the top bid: the rows of \<^verbatim>\<open>token_sets\<close> with the row's
  token set identifier, ordered by \<^verbatim>\<open>top_buy_value DESC\<close> (nulls first, the
  default of a descending order), the first of them.
\<close>

definition top_bid :: "'b store \<Rightarrow> string option \<Rightarrow> 'b token_set option" where
  "top_bid st tsid =
     (case tsid of
        None \<Rightarrow> None
      | Some i \<Rightarrow>
          (case order_desc False ts_top_buy_value (filter (\<lambda>t. ts_id t = i) (tbl_token_sets st)) of
             [] \<Rightarrow> None
           | t # _ \<Rightarrow> Some t))"

text \<open>The select list, and the columns of the join when the top bid is requested.\<close>

definition select_row :: "'b store \<Rightarrow> bool \<Rightarrow> 'b collection \<Rightarrow> 'b row" where
  "select_row st with_top_bid c =
     \<lparr> r_id = c_id c,
       r_slug = c_slug c,
       r_name = c_name c,
       r_image = c_imageUrl c,
       r_banner = c_bannerImageUrl c,
       r_discord_url = c_discordUrl c,
       r_description = c_description c,
       r_external_url = c_externalUrl c,
       r_twitter_username = c_twitterUsername c,
       r_contract = c_contract c,
       r_token_set_id = c_token_set_id c,
       r_token_count = c_token_count c,
       r_sample_images =
         take 4 (map t_image (filter (\<lambda>t. t_collection_id t = c_id c) (tbl_tokens st))),
       r_floor_sell_value = map_option numeric_out (c_floor_sell_value c),
       r_day1_volume = map_option numeric_out (c_day1_volume c),
       r_day7_volume = map_option numeric_out (c_day7_volume c),
       r_day30_volume = map_option numeric_out (c_day30_volume c),
       r_all_time_volume = map_option numeric_out (c_all_time_volume c),
       r_day1_rank = c_day1_rank c,
       r_day7_rank = c_day7_rank c,
       r_day30_rank = c_day30_rank c,
       r_all_time_rank = c_all_time_rank c,
       r_day1_volume_change = c_day1_volume_change c,
       r_day7_volume_change = c_day7_volume_change c,
       r_day30_volume_change = c_day30_volume_change c,
       r_day1_floor_sell_value = map_option numeric_out (c_day1_floor_sell_value c),
       r_day7_floor_sell_value = map_option numeric_out (c_day7_floor_sell_value c),
       r_day30_floor_sell_value = map_option numeric_out (c_day30_floor_sell_value c),
       r_top_buy_value =
         (if with_top_bid then
            (case top_bid st (c_token_set_id c) of
               None \<Rightarrow> None
             | Some t \<Rightarrow> map_option numeric_out (ts_top_buy_value t))
          else None),
       r_top_buy_maker =
         (if with_top_bid then
            (case top_bid st (c_token_set_id c) of None \<Rightarrow> None | Some t \<Rightarrow> ts_top_buy_maker t)
          else None) \<rparr>"

text \<open>The rows of \<^verbatim>\<open>collections\<close> the inner query keeps, in its order.\<close>

definition selected :: "'b store \<Rightarrow> 'b composed \<Rightarrow> nat \<Rightarrow> 'b collection list" where
  "selected st cq n =
     take n (order_desc True (column_value (orderBy cq))
       (filter (where_holds (params cq) (conditions cq)) (tbl_collections st)))"

definition manyOrNone :: "'b store \<Rightarrow> 'b composed \<Rightarrow> error + 'b row list" where
  "manyOrNone st cq =
     (case p_limit (params cq) of
        None \<Rightarrow> Inl UpstreamFailure
      | Some n \<Rightarrow>
          if n < 0 \<or> \<not> list_all (bound (params cq)) (conditions cq) then Inl UpstreamFailure
          else Inr (map (select_row st (topBid cq)) (selected st cq (nat n))))"

subsection \<open>The response\<close>

record rank =
  rank_1day :: "int option"
  rank_7day :: "int option"
  rank_30day :: "int option"
  rank_allTime :: "int option"

record 'd volume =
  volume_1day :: "'d option"
  volume_7day :: "'d option"
  volume_30day :: "'d option"
  volume_allTime :: "'d option"

record volumeChange =
  volumeChange_1day :: "real option"
  volumeChange_7day :: "real option"
  volumeChange_30day :: "real option"

record 'd floorSale =
  floorSale_1day :: "'d option"
  floorSale_7day :: "'d option"
  floorSale_30day :: "'d option"

text \<open>
  One element of \<^verbatim>\<open>collections\<close>. The two top bid fields exist only when the top
  bid was requested: \<open>None\<close> is an absent field, \<open>Some None\<close> a null one.
\<close>

record 'd response =
  o_id :: string
  o_slug :: "string option"
  o_name :: "string option"
  o_image :: "string option"
  o_banner :: "string option"
  o_discordUrl :: "string option"
  o_externalUrl :: "string option"
  o_twitterUsername :: "string option"
  o_description :: "string option"
  o_sampleImages :: "string option list"
  o_tokenCount :: string
  o_primaryContract :: string
  o_tokenSetId :: "string option"
  o_floorAskPrice :: "'d option"
  o_rank :: rank
  o_volume :: "'d volume"
  o_volumeChange :: volumeChange
  o_floorSale :: "'d floorSale"
  o_topBidValue :: "'d option option"
  o_topBidMaker :: "string option option"

record 'd page =
  page_collections :: "'d response list"
  page_continuation :: "string option"

text \<open>\<^verbatim>\<open>v ? formatEth(v) : null\<close>.\<close>

definition eth :: "('b, 'd) env \<Rightarrow> string option \<Rightarrow> 'd option" where
  "eth u v = map_option (formatEth u) (given v)"

text \<open>The function mapped over the result.\<close>

definition project :: "('b, 'd) env \<Rightarrow> request \<Rightarrow> 'b row \<Rightarrow> 'd response" where
  "project u q r =
     \<lparr> o_id = r_id r,
       o_slug = r_slug r,
       o_name = r_name r,
       o_image =
         (if truthy (r_image r) then r_image r
          else (case r_sample_images r of [] \<Rightarrow> None | i # _ \<Rightarrow> i)),
       o_banner = r_banner r,
       o_discordUrl = r_discord_url r,
       o_externalUrl = r_external_url r,
       o_twitterUsername = r_twitter_username r,
       o_description = r_description r,
       o_sampleImages = r_sample_images r,
       o_tokenCount = numeric_out (r_token_count r),
       o_primaryContract = fromBuffer u (r_contract r),
       o_tokenSetId = r_token_set_id r,
       o_floorAskPrice = eth u (r_floor_sell_value r),
       o_rank = \<lparr> rank_1day = r_day1_rank r, rank_7day = r_day7_rank r,
                  rank_30day = r_day30_rank r, rank_allTime = r_all_time_rank r \<rparr>,
       o_volume = \<lparr> volume_1day = eth u (r_day1_volume r),
                    volume_7day = eth u (r_day7_volume r),
                    volume_30day = eth u (r_day30_volume r),
                    volume_allTime = eth u (r_all_time_volume r) \<rparr>,
       o_volumeChange = \<lparr> volumeChange_1day = r_day1_volume_change r,
                          volumeChange_7day = r_day7_volume_change r,
                          volumeChange_30day = r_day30_volume_change r \<rparr>,
       o_floorSale = \<lparr> floorSale_1day = eth u (r_day1_floor_sell_value r),
                       floorSale_7day = eth u (r_day7_floor_sell_value r),
                       floorSale_30day = eth u (r_day30_floor_sell_value r) \<rparr>,
       o_topBidValue =
         (if includeTopBid q = Some True then Some (eth u (r_top_buy_value r)) else None),
       o_topBidMaker =
         (if includeTopBid q = Some True then Some (map_option (fromBuffer u) (r_top_buy_maker r))
          else None) \<rparr>"

text \<open>The second \<^verbatim>\<open>switch (query.sortBy)\<close>: the field of the last row that is returned.\<close>

definition continuation_switch :: "string option \<Rightarrow> 'b row \<Rightarrow> string option" where
  "continuation_switch s lastCollection =
     (if s = Some ''1DayVolume'' then r_day1_volume lastCollection
      else if s = Some ''7DayVolume'' then r_day7_volume lastCollection
      else if s = Some ''30DayVolume'' then r_day30_volume lastCollection
      else r_all_time_volume lastCollection)"

text \<open>
  \<^verbatim>\<open>if (result.length === query.limit)\<close>, then the last row if there is one, then
  the switch; \<^verbatim>\<open>null\<close> otherwise.
\<close>

definition set_continuation :: "request \<Rightarrow> 'b row list \<Rightarrow> string option" where
  "set_continuation q result =
     (if limit q = Some (int (length result)) then
        (if result \<noteq> [] then continuation_switch (sortBy q) (last result) else None)
      else None)"

definition handler :: "('b, 'd) env \<Rightarrow> 'b store \<Rightarrow> request \<Rightarrow> error + 'd page" where
  "handler u st q =
     (case compose u q of
        Inl e \<Rightarrow> Inl e
      | Inr cq \<Rightarrow>
          (case manyOrNone st cq of
             Inl e \<Rightarrow> Inl e
           | Inr result \<Rightarrow>
               Inr \<lparr> page_collections = map (project u q) result,
                      page_continuation = set_continuation q result \<rparr>))"

text \<open>The operation a caller sees: the schema, then the handler on the validated query.\<close>

definition listCollections :: "('b, 'd) env \<Rightarrow> 'b store \<Rightarrow> request \<Rightarrow> error + 'd page" where
  "listCollections u st q =
     (case validate q of Inl e \<Rightarrow> Inl (InvalidRequest e) | Inr q' \<Rightarrow> handler u st q')"

subsection \<open>A caller that follows the continuation\<close>


subsection \<open>Notions used by the properties\<close>



text \<open>
  A row lies behind a cursor when there is no cursor, or when the row has a value and the
  value is smaller than the cursor.
\<close>

definition below_cursor :: "int option \<Rightarrow> int option \<Rightarrow> bool" where
  "below_cursor k v =
     (case k of
        None \<Rightarrow> True
      | Some x \<Rightarrow> (case v of None \<Rightarrow> False | Some y \<Rightarrow> y < x))"

text \<open>
  The page behind a cursor: of the rows that satisfy \<open>P\<close> and lie behind the cursor, in
  descending order with nulls last, the first \<open>n\<close>.
\<close>

definition page_of ::
  "('a \<Rightarrow> bool) \<Rightarrow> ('a \<Rightarrow> int option) \<Rightarrow> nat \<Rightarrow> 'a list \<Rightarrow> int option \<Rightarrow> 'a list" where
  "page_of P key n tbl k =
     take n (order_desc True key (filter (\<lambda>c. P c \<and> below_cursor k (key c)) tbl))"

text \<open>What a test reads off a page: the identifiers in order, and the continuation.\<close>

definition ids_and_continuation :: "error + 'd page \<Rightarrow> error + string list \<times> string option" where
  "ids_and_continuation r =
     (case r of
        Inl e \<Rightarrow> Inl e
      | Inr pg \<Rightarrow> Inr (map o_id (page_collections pg), page_continuation pg))"


subsection \<open>Example data\<close>

text \<open>
  Helpers for the examples: addresses in binary form are their hexadecimal digits, the
  display value is the amount divided by \<open>10 ^ 18\<close>, and the resolver knows an empty set and
  a set of two collections.
\<close>

definition example_env :: "(string, rat) env" where
  "example_env =
     \<lparr> formatEth = (\<lambda>s. case numeric_in s of None \<Rightarrow> 0 | Some n \<Rightarrow> of_int n / 10 ^ 18),
       fromBuffer = (\<lambda>b. ''0x'' @ b),
       toBuffer = drop 2,
       getCollectionsIds =
         (\<lambda>s. if s = ''empty'' then Some []
              else if s = ''pair'' then Some [''c50'', ''c10'']
              else None) \<rparr>"

definition empty_request :: request where
  "empty_request =
     \<lparr> collectionsSetId = None, community = None, contract = None, name = None, slug = None,
       sortBy = None, includeTopBid = None, limit = None, continuation = None \<rparr>"

text \<open>A collection with an identifier, a contract and one value for its 7-day and all-time volume.\<close>

definition example_collection :: "string \<Rightarrow> string \<Rightarrow> int option \<Rightarrow> string collection" where
  "example_collection i addr v =
     \<lparr> c_id = i, c_slug = None, c_name = None, c_community = None, c_imageUrl = None,
       c_bannerImageUrl = None, c_discordUrl = None, c_description = None,
       c_externalUrl = None, c_twitterUsername = None, c_contract = addr,
       c_token_set_id = None, c_token_count = 0, c_floor_sell_value = None,
       c_day1_volume = None, c_day7_volume = v, c_day30_volume = None,
       c_all_time_volume = v, c_day1_rank = None, c_day7_rank = None, c_day30_rank = None,
       c_all_time_rank = None, c_day1_volume_change = None, c_day7_volume_change = None,
       c_day30_volume_change = None, c_day1_floor_sell_value = None,
       c_day7_floor_sell_value = None, c_day30_floor_sell_value = None \<rparr>"

definition addr_a :: string where
  "addr_a = ''abc0000000000000000000000000000000000abc''"

definition addr_b :: string where
  "addr_b = ''def0000000000000000000000000000000000def''"

text \<open>Three collections of one contract with volumes 30, 50 and 10, and one of another contract.\<close>

definition example_store :: "string store" where
  "example_store =
     \<lparr> tbl_collections =
         [example_collection ''c30'' addr_a (Some 30),
          example_collection ''x99'' addr_b (Some 99),
          example_collection ''c50'' addr_a (Some 50),
          example_collection ''c10'' addr_a (Some 10)],
       tbl_tokens = [], tbl_token_sets = [] \<rparr>"

text \<open>\<^verbatim>\<open>{contract: "0xabc...", sortBy: "7DayVolume", limit: 2}\<close>.\<close>

definition example_request :: request where
  "example_request =
     empty_request \<lparr> contract := Some (''0x'' @ addr_a), sortBy := Some ''7DayVolume'',
                     limit := Some 2 \<rparr>"

text \<open>Volumes 50 and 30, and a collection without a volume.\<close>

definition null_tail_store :: "string store" where
  "null_tail_store =
     \<lparr> tbl_collections =
         [example_collection ''c50'' addr_a (Some 50),
          example_collection ''c30'' addr_a (Some 30),
          example_collection ''cnull'' addr_a None],
       tbl_tokens = [], tbl_token_sets = [] \<rparr>"

section \<open>Properties\<close>

subsection \<open>The schema\<close>

lemma validate_InrD:
  assumes "validate q0 = Inr q"
  shows "joi_string_lowercase ''collectionsSetId'' (collectionsSetId q0) = Inr (collectionsSetId q)"
    and "joi_string_lowercase ''community'' (community q0) = Inr (community q)"
    and "joi_contract (contract q0) = Inr (contract q)"
    and "joi_string_lowercase ''name'' (name q0) = Inr (name q)"
    and "joi_string_lowercase ''slug'' (slug q0) = Inr (slug q)"
    and "joi_sortBy (sortBy q0) = Inr (sortBy q)"
    and "joi_limit (limit q0) = Inr (limit q)"
    and "joi_string ''continuation'' (continuation q0) = Inr (continuation q)"
    and "includeTopBid q = Some (case includeTopBid q0 of None \<Rightarrow> False | Some b \<Rightarrow> b)"
proof -
  from assms obtain v1 v2 v3 v4 v5 v6 v8 v9 where
    "joi_string_lowercase ''collectionsSetId'' (collectionsSetId q0) = Inr v1"
    "joi_string_lowercase ''community'' (community q0) = Inr v2"
    "joi_contract (contract q0) = Inr v3"
    "joi_string_lowercase ''name'' (name q0) = Inr v4"
    "joi_string_lowercase ''slug'' (slug q0) = Inr v5"
    "joi_sortBy (sortBy q0) = Inr v6"
    "joi_limit (limit q0) = Inr v8"
    "joi_string ''continuation'' (continuation q0) = Inr v9"
    "q = \<lparr> collectionsSetId = v1, community = v2, contract = v3, name = v4,
                 slug = v5, sortBy = v6,
                 includeTopBid = Some (case includeTopBid q0 of None \<Rightarrow> False | Some b \<Rightarrow> b),
                 limit = v8, continuation = v9 \<rparr>"
    unfolding validate_def Let_def
    by (simp split: sum.splits if_splits)
  then show "joi_string_lowercase ''collectionsSetId'' (collectionsSetId q0) = Inr (collectionsSetId q)"
    and "joi_string_lowercase ''community'' (community q0) = Inr (community q)"
    and "joi_contract (contract q0) = Inr (contract q)"
    and "joi_string_lowercase ''name'' (name q0) = Inr (name q)"
    and "joi_string_lowercase ''slug'' (slug q0) = Inr (slug q)"
    and "joi_sortBy (sortBy q0) = Inr (sortBy q)"
    and "joi_limit (limit q0) = Inr (limit q)"
    and "joi_string ''continuation'' (continuation q0) = Inr (continuation q)"
    and "includeTopBid q = Some (case includeTopBid q0 of None \<Rightarrow> False | Some b \<Rightarrow> b)"
    by simp_all
qed

lemma joi_string_Inr: "joi_string key v = Inr w \<Longrightarrow> w = v \<and> v \<noteq> Some []"
  by (auto simp: joi_string_def split: option.splits if_splits)

lemma joi_limit_Inr: "joi_limit v = Inr w \<Longrightarrow> \<exists>n. w = Some n \<and> 1 \<le> n \<and> n \<le> 20"
  by (auto simp: joi_limit_def split: option.splits if_splits)

lemma joi_sortBy_Inr: "joi_sortBy v = Inr w \<Longrightarrow> \<exists>s. w = Some s \<and> s \<in> set sortBy_valid"
  by (auto simp: joi_sortBy_def sortBy_valid_def split: option.splits if_splits)

lemma validate_fields:
  assumes "validate q0 = Inr q"
  shows "continuation q = continuation q0"
    and "continuation q0 \<noteq> Some []"
    and "\<exists>n. limit q = Some n \<and> 1 \<le> n \<and> n \<le> 20"
    and "\<exists>s. sortBy q = Some s \<and> s \<in> set sortBy_valid"
  using validate_InrD(6,7,8)[OF assms] joi_string_Inr joi_limit_Inr joi_sortBy_Inr
  by blast+

text \<open>
  The relationship between the keys never decides: after the defaults \<^verbatim>\<open>sortBy\<close> has a
  value. The schema is the sequence of the rules of the keys.
\<close>

lemma validate_keys:
  "validate q =
     (case joi_string_lowercase ''collectionsSetId'' (collectionsSetId q) of Inl e \<Rightarrow> Inl e
      | Inr v1 \<Rightarrow>
     (case joi_string_lowercase ''community'' (community q) of Inl e \<Rightarrow> Inl e
      | Inr v2 \<Rightarrow>
     (case joi_contract (contract q) of Inl e \<Rightarrow> Inl e
      | Inr v3 \<Rightarrow>
     (case joi_string_lowercase ''name'' (name q) of Inl e \<Rightarrow> Inl e
      | Inr v4 \<Rightarrow>
     (case joi_string_lowercase ''slug'' (slug q) of Inl e \<Rightarrow> Inl e
      | Inr v5 \<Rightarrow>
     (case joi_sortBy (sortBy q) of Inl e \<Rightarrow> Inl e
      | Inr v6 \<Rightarrow>
     (case joi_limit (limit q) of Inl e \<Rightarrow> Inl e
      | Inr v8 \<Rightarrow>
     (case joi_string ''continuation'' (continuation q) of Inl e \<Rightarrow> Inl e
      | Inr v9 \<Rightarrow>
        Inr \<lparr> collectionsSetId = v1, community = v2, contract = v3, name = v4,
              slug = v5, sortBy = v6,
              includeTopBid = Some (case includeTopBid q of None \<Rightarrow> False | Some b \<Rightarrow> b),
              limit = v8, continuation = v9 \<rparr>))))))))"
  unfolding validate_def Let_def
  by (simp add: joi_or_def split: sum.splits) (auto dest: joi_sortBy_Inr)




lemma validate_collectionsSetId:
  assumes "sid \<noteq> []"
  shows "validate (q0\<lparr>collectionsSetId := Some sid\<rparr>) =
           (case validate (q0\<lparr>collectionsSetId := None\<rparr>) of
              Inl e \<Rightarrow> Inl e
            | Inr q \<Rightarrow> Inr (q\<lparr>collectionsSetId := Some (toLowerCase sid)\<rparr>))"
proof -
  have j: "joi_string_lowercase ''collectionsSetId'' (Some sid) = Inr (Some (toLowerCase sid))"
    "joi_string_lowercase ''collectionsSetId'' None = Inr None"
    using assms by (simp_all add: joi_string_lowercase_def)
  show ?thesis
    unfolding validate_keys
    by (simp add: j split: sum.splits)
qed

subsection \<open>Numeric text\<close>

lemma digits_not_Nil: "digits n \<noteq> []"
  by (subst digits.simps) simp

lemma numeric_out_not_Nil: "numeric_out i \<noteq> []"
  by (simp add: numeric_out_def digits_not_Nil)

lemma numeric_out_0: "numeric_out 0 = ''0''"
  by (simp add: numeric_out_def digits.simps digit_char_def)

lemma eth_numeric_out:
  "eth u (map_option numeric_out v) = map_option (\<lambda>i. formatEth u (numeric_out i)) v"
  by (cases v) (simp_all add: eth_def given_def truthy_def numeric_out_not_Nil)

subsection \<open>The handler\<close>

lemma compose_cases:
  "compose u q = Inl UpstreamFailure \<or>
   (\<exists>ids. resolve u q = Inr ids \<and> compose u q = Inr (assemble u q ids))"
  by (auto simp: compose_def resolve_def split: sum.splits option.splits)

lemma manyOrNone_error: "manyOrNone st cq = Inl e \<Longrightarrow> e = UpstreamFailure"
  by (auto simp: manyOrNone_def split: option.splits if_splits)

lemma handler_error: "handler u st q = Inl e \<Longrightarrow> e = UpstreamFailure"
  using compose_cases[of u q]
  by (auto simp: handler_def split: sum.splits dest: manyOrNone_error)

lemma listCollections_no_InvalidCursor: "listCollections u st q \<noteq> Inl InvalidCursor"
  by (auto simp: listCollections_def split: sum.splits dest: handler_error)

lemma project_eq: "includeTopBid q = includeTopBid q' \<Longrightarrow> project u q = project u q'"
  by (rule ext) (simp add: project_def)

lemma handler_eqI:
  assumes "compose u q = compose u q'"
    and "includeTopBid q = includeTopBid q'"
    and "limit q = limit q'"
    and "(continuation_switch (sortBy q) :: 'b row \<Rightarrow> string option) =
         continuation_switch (sortBy q')"
  shows "handler u (st :: 'b store) q = handler u st q'"
proof -
  have "set_continuation q rs = set_continuation q' rs" for rs :: "'b row list"
    using assms(3,4) by (simp add: set_continuation_def)
  then show ?thesis
    using assms(1) project_eq[OF assms(2), of u]
    by (simp add: handler_def split: sum.splits)
qed


lemma sort_switch_unknown:
  "s \<notin> set sortBy_valid \<Longrightarrow> sort_switch (Some s) = (AllTimeVolume, AllTimeVolume)"
  by (auto simp: sort_switch_def sortBy_valid_def)

lemma continuation_switch_unknown:
  "s \<notin> set sortBy_valid \<Longrightarrow>
   continuation_switch (Some s) = continuation_switch (Some ''allTimeVolume'')"
  by (rule ext) (auto simp: continuation_switch_def sortBy_valid_def)

lemma resolve_sortBy: "resolve u (q\<lparr>sortBy := x\<rparr>) = resolve u q"
  by (simp add: resolve_def)

lemma handler_unknown:
  assumes "s \<notin> set sortBy_valid"
  shows "handler u st (q\<lparr>sortBy := Some s\<rparr>) = handler u st (q\<lparr>sortBy := Some ''allTimeVolume''\<rparr>)"
proof (rule handler_eqI)
  have a: "sort_switch (Some s) = sort_switch (Some ''allTimeVolume'')"
    using assms by (simp add: sort_switch_unknown) (simp add: sort_switch_def)
  have as: "assemble u (q\<lparr>sortBy := Some s\<rparr>) ids =
            assemble u (q\<lparr>sortBy := Some ''allTimeVolume''\<rparr>) ids" for ids
    by (simp add: assemble_def filters_def sorting_def query_params_def a)
  show "compose u (q\<lparr>sortBy := Some s\<rparr>) = compose u (q\<lparr>sortBy := Some ''allTimeVolume''\<rparr>)"
    by (simp add: compose_def resolve_sortBy as split: sum.splits)
  show "continuation_switch (sortBy (q\<lparr>sortBy := Some s\<rparr>)) =
        continuation_switch (sortBy (q\<lparr>sortBy := Some ''allTimeVolume''\<rparr>))"
    using continuation_switch_unknown[OF assms] by simp
qed simp_all

lemma validate_unknown:
  "s \<notin> set sortBy_valid \<Longrightarrow> \<exists>e. validate (q\<lparr>sortBy := Some s\<rparr>) = Inl e"
  unfolding validate_keys
  by (auto simp: joi_sortBy_def split: sum.splits)




lemma continuation_switch_select:
  "continuation_switch s (select_row st b c) =
   map_option numeric_out (column_value (snd (sort_switch s)) c)"
  by (simp add: continuation_switch_def sort_switch_def select_row_def)

text \<open>What a page is made of, when the handler returns one.\<close>

lemma handler_Inr:
  assumes "handler u st q = Inr pg"
  shows "\<exists>ids n. resolve u q = Inr ids \<and> limit q = Some (int n) \<and>
           page_collections pg =
             map (project u q \<circ> select_row st (topBid (assemble u q ids)))
               (selected st (assemble u q ids) n) \<and>
           page_continuation pg =
             (if length (selected st (assemble u q ids) n) = n \<and> 0 < n
              then map_option numeric_out
                     (column_value (orderBy (assemble u q ids))
                        (last (selected st (assemble u q ids) n)))
              else None)"
proof -
  from compose_cases[of u q] assms obtain ids
    where r: "resolve u q = Inr ids" and c: "compose u q = Inr (assemble u q ids)"
    by (auto simp: handler_def)
  let ?cq = "assemble u q ids"
  from assms c obtain rs where m: "manyOrNone st ?cq = Inr rs"
    and pg: "pg = \<lparr>page_collections = map (project u q) rs,
                    page_continuation = set_continuation q rs\<rparr>"
    by (auto simp: handler_def split: sum.splits)
  have pl: "p_limit (params ?cq) = limit q"
    by (simp add: assemble_def query_params_def)
  from m pl obtain l where l: "limit q = Some l" "0 \<le> l"
    and rs: "rs = map (select_row st (topBid ?cq)) (selected st ?cq (nat l))"
    by (auto simp: manyOrNone_def split: option.splits if_splits)
  let ?cs = "selected st ?cq (nat l)"
  have ob: "orderBy ?cq = snd (sort_switch (sortBy q))"
    by (simp add: assemble_def sorting_def)
  have len: "length rs = length ?cs" by (simp add: rs)
  have lim: "(limit q = Some (int (length rs))) = (length ?cs = nat l)"
    using l len by auto
  have lst: "continuation_switch (sortBy q) (last rs) =
             map_option numeric_out (column_value (orderBy ?cq) (last ?cs))"
    if "?cs \<noteq> []"
    using that by (simp add: rs last_map continuation_switch_select ob)
  have ne: "(rs \<noteq> []) = (?cs \<noteq> [])" by (simp add: rs)
  have sc: "set_continuation q rs =
            (if length ?cs = nat l \<and> 0 < nat l
             then map_option numeric_out (column_value (orderBy ?cq) (last ?cs)) else None)"
  proof (cases "length ?cs = nat l \<and> 0 < nat l")
    case True
    then have "?cs \<noteq> []" by auto
    then show ?thesis using True lst lim ne by (simp add: set_continuation_def)
  next
    case False
    then have "length ?cs \<noteq> nat l \<or> ?cs = []" by auto
    then show ?thesis using False lim ne by (auto simp: set_continuation_def)
  qed
  have il: "limit q = Some (int (nat l))" using l by simp
  show ?thesis
    apply (rule exI[of _ ids])
    apply (rule exI[of _ "nat l"])
    apply (intro conjI)
       apply (rule r)
      apply (rule il)
     apply (simp add: pg rs)
    apply (simp add: pg sc)
    done
qed


lemma resolve_empty:
  assumes "getCollectionsIds u sid = Some []"
  shows "resolve u (q\<lparr>collectionsSetId := Some sid\<rparr>) = Inr None"
  using assms by (simp add: resolve_def given_def truthy_def)

lemma resolve_absent: "resolve u (q\<lparr>collectionsSetId := None\<rparr>) = Inr None"
  by (simp add: resolve_def given_def truthy_def)

lemma assemble_collectionsSetId: "assemble u (q\<lparr>collectionsSetId := x\<rparr>) ids = assemble u q ids"
  by (simp add: assemble_def filters_def sorting_def query_params_def)

lemma handler_empty_set:
  assumes "getCollectionsIds u sid = Some []"
  shows "handler u st (q\<lparr>collectionsSetId := Some sid\<rparr>) =
         handler u st (q\<lparr>collectionsSetId := None\<rparr>)"
  by (rule handler_eqI)
    (simp_all add: compose_def resolve_empty[OF assms] resolve_absent assemble_collectionsSetId)

subsection \<open>Numeric text is read back\<close>









subsection \<open>The order of the rows\<close>







subsection \<open>One page\<close>



lemma page_of_length: "length (page_of P key n tbl k) \<le> n"
  by (simp add: page_of_def)






subsection \<open>The page of a request with a numeric continuation\<close>















subsection \<open>Following the continuation\<close>



section \<open>The claims\<close>







text \<open>
  C3, as amended. A page that the endpoint returns holds at most \<open>limit\<close> rows. Its
  continuation is the text of the order column of the last row when the page holds exactly
  \<open>limit\<close> rows, which is null when that row has no value in the column, and null when
  the page is shorter. So a non-null continuation implies a full page and is the sort value
  of the last row; a full page that ends in a row without a value has a null continuation.
\<close>

theorem continuation_of_page:
  assumes "listCollections u st q0 = Inr pg"
  shows "\<exists>q ids n. validate q0 = Inr q \<and> resolve u q = Inr ids \<and> limit q = Some (int n) \<and> 0 < n \<and>
           page_collections pg =
             map (project u q \<circ> select_row st (topBid (assemble u q ids)))
               (selected st (assemble u q ids) n) \<and>
           length (page_collections pg) \<le> n \<and>
           orderBy (assemble u q ids) = snd (sort_switch (sortBy q)) \<and>
           page_continuation pg =
             (if length (page_collections pg) = n
              then map_option numeric_out
                     (column_value (orderBy (assemble u q ids))
                        (last (selected st (assemble u q ids) n)))
              else None)"
proof -
  from assms obtain q where v: "validate q0 = Inr q" and h: "handler u st q = Inr pg"
    by (auto simp: listCollections_def split: sum.splits)
  from handler_Inr[OF h] obtain ids n where r: "resolve u q = Inr ids"
    and l: "limit q = Some (int n)"
    and pc: "page_collections pg =
             map (project u q \<circ> select_row st (topBid (assemble u q ids)))
               (selected st (assemble u q ids) n)"
    and ct: "page_continuation pg =
             (if length (selected st (assemble u q ids) n) = n \<and> 0 < n
              then map_option numeric_out
                     (column_value (orderBy (assemble u q ids))
                        (last (selected st (assemble u q ids) n)))
              else None)"
    by blast
  have n: "0 < n" using validate_fields(3)[OF v] l by auto
  have len: "length (page_collections pg) = length (selected st (assemble u q ids) n)"
    by (simp add: pc)
  have le: "length (page_collections pg) \<le> n"
    by (simp add: len selected_def)
  have ob: "orderBy (assemble u q ids) = snd (sort_switch (sortBy q))"
    by (simp add: assemble_def sorting_def)
  have ct': "page_continuation pg =
             (if length (page_collections pg) = n
              then map_option numeric_out
                     (column_value (orderBy (assemble u q ids))
                        (last (selected st (assemble u q ids) n)))
              else None)"
    using ct n len by simp
  show ?thesis
    using v r l n pc le ob ct' by blast
qed

theorem continuation_of_page_witness:
  "listCollections example_env example_store example_request =
     Inr (projr (listCollections example_env example_store example_request)) \<and>
   (\<exists>q ids n. validate example_request = Inr q \<and> resolve example_env q = Inr ids \<and>
      limit q = Some (int n) \<and> 0 < n \<and>
      page_collections (projr (listCollections example_env example_store example_request)) =
        map (project example_env q \<circ> select_row example_store (topBid (assemble example_env q ids)))
          (selected example_store (assemble example_env q ids) n) \<and>
      length (page_collections (projr (listCollections example_env example_store example_request))) \<le> n \<and>
      orderBy (assemble example_env q ids) = snd (sort_switch (sortBy q)) \<and>
      page_continuation (projr (listCollections example_env example_store example_request)) =
        (if length (page_collections (projr (listCollections example_env example_store example_request))) = n
         then map_option numeric_out
                (column_value (orderBy (assemble example_env q ids))
                   (last (selected example_store (assemble example_env q ids) n)))
         else None))"
proof -
  have "isl (listCollections example_env example_store example_request) = False"
    by code_simp
  then have h: "listCollections example_env example_store example_request =
     Inr (projr (listCollections example_env example_store example_request))"
    by (cases "listCollections example_env example_store example_request") simp_all
  show ?thesis
    using h continuation_of_page[OF h] by (rule conjI)
qed

text \<open>
  C3 as stated fails: with three rows and \<open>limit = 3\<close> the page is full, its last row has
  no volume, and the continuation is null.
\<close>

theorem full_page_null_continuation:
  "ids_and_continuation
     (listCollections example_env null_tail_store (empty_request\<lparr>limit := Some 3\<rparr>)) =
   Inr ([''c50'', ''c30'', ''cnull''], None)"
  by code_simp



text \<open>
  C5. Three collections match the contract filter, with 7-day volumes 50, 30 and 10 (and a
  fourth collection of another contract has more). The request with \<open>limit = 2\<close> returns
  the rows with 50 and 30 and the continuation \<^verbatim>\<open>30\<close>; the same request with that
  continuation returns the row with 10 and no continuation.
\<close>

theorem example_two_pages:
  "ids_and_continuation (listCollections example_env example_store example_request) =
     Inr ([''c50'', ''c30''], Some ''30'') \<and>
   map_sum id (\<lambda>pg. map (volume_7day \<circ> o_volume) (page_collections pg))
     (listCollections example_env example_store example_request) =
     Inr [Some (formatEth example_env ''50''), Some (formatEth example_env ''30'')] \<and>
   ids_and_continuation
     (listCollections example_env example_store (example_request\<lparr>continuation := Some ''30''\<rparr>)) =
     Inr ([''c10''], None) \<and>
   map_sum id (\<lambda>pg. map (volume_7day \<circ> o_volume) (page_collections pg))
     (listCollections example_env example_store (example_request\<lparr>continuation := Some ''30''\<rparr>)) =
     Inr [Some (formatEth example_env ''10'')]"
  by code_simp



text \<open>
  C7, as amended. In the handler a selector outside the enumeration takes the default
  branch of both switches: the order clause, the continuation predicate and the derived
  continuation use the all-time volume, and the handler behaves as for
  \<^verbatim>\<open>allTimeVolume\<close>. The endpoint does not reach the handler with such a selector: the
  schema allows the four values only and rejects the request.
\<close>

theorem unknown_sortBy_default_in_handler:
  assumes "s \<notin> set sortBy_valid"
  shows "handler u st (q\<lparr>sortBy := Some s\<rparr>) = handler u st (q\<lparr>sortBy := Some ''allTimeVolume''\<rparr>) \<and>
         sort_switch (Some s) = (AllTimeVolume, AllTimeVolume) \<and>
         continuation_switch (Some s) r = r_all_time_volume r \<and>
         (\<exists>e. listCollections u st (q\<lparr>sortBy := Some s\<rparr>) = Inl (InvalidRequest e))"
proof -
  have c: "continuation_switch (Some s) r = r_all_time_volume r"
    using assms by (auto simp: continuation_switch_def sortBy_valid_def)
  have l: "\<exists>e. listCollections u st (q\<lparr>sortBy := Some s\<rparr>) = Inl (InvalidRequest e)"
    using validate_unknown[OF assms, of q] by (auto simp: listCollections_def)
  show ?thesis
    using handler_unknown[OF assms] sort_switch_unknown[OF assms] c l by blast
qed

theorem unknown_sortBy_witness:
  "''foo'' \<notin> set sortBy_valid \<and>
   handler example_env example_store (example_request\<lparr>sortBy := Some ''foo''\<rparr>) =
     handler example_env example_store (example_request\<lparr>sortBy := Some ''allTimeVolume''\<rparr>) \<and>
   sort_switch (Some ''foo'') = (AllTimeVolume, AllTimeVolume) \<and>
   continuation_switch (Some ''foo'')
       (select_row example_store False (example_collection ''c30'' addr_a (Some 30))) =
     r_all_time_volume (select_row example_store False (example_collection ''c30'' addr_a (Some 30))) \<and>
   (\<exists>e. listCollections example_env example_store (example_request\<lparr>sortBy := Some ''foo''\<rparr>) =
      Inl (InvalidRequest e))"
proof -
  have h: "''foo'' \<notin> set sortBy_valid"
    by (simp add: sortBy_valid_def)
  show ?thesis
    using h unknown_sortBy_default_in_handler[OF h, of example_env example_store example_request
        "select_row example_store False (example_collection ''c30'' addr_a (Some 30))"]
    by (rule conjI)
qed

text \<open>C7 as stated fails: the endpoint answers the selector \<^verbatim>\<open>foo\<close> with an error.\<close>

theorem unknown_sortBy_rejected:
  "listCollections example_env example_store (example_request\<lparr>sortBy := Some ''foo''\<rparr>) =
     Inl (InvalidRequest (AnyOnly ''sortBy''))"
  by code_simp

text \<open>
  C8. When the resolver answers a collection set with the empty list, no parameter is set
  and no predicate is pushed: the handler, and the endpoint, answer as if the key were
  absent. (The schema folds the identifier to lower case before the resolver sees it.)
\<close>

theorem empty_collection_set_is_no_filter:
  assumes "getCollectionsIds u (toLowerCase sid) = Some []"
  shows "handler u st (q\<lparr>collectionsSetId := Some (toLowerCase sid)\<rparr>) =
           handler u st (q\<lparr>collectionsSetId := None\<rparr>) \<and>
         resolve u (q\<lparr>collectionsSetId := Some (toLowerCase sid)\<rparr>) = Inr None \<and>
         CollectionsIdIn \<notin> set (conditions (assemble u (q\<lparr>collectionsSetId := Some (toLowerCase sid)\<rparr>) None)) \<and>
         (sid \<noteq> [] \<longrightarrow>
            listCollections u st (q0\<lparr>collectionsSetId := Some sid\<rparr>) =
            listCollections u st (q0\<lparr>collectionsSetId := None\<rparr>))"
proof -
  have a: "CollectionsIdIn \<notin> set (conditions (assemble u (q\<lparr>collectionsSetId := Some (toLowerCase sid)\<rparr>) None))"
    by (simp add: assemble_def filters_def sorting_def pushed_def)
  have b: "listCollections u st (q0\<lparr>collectionsSetId := Some sid\<rparr>) =
           listCollections u st (q0\<lparr>collectionsSetId := None\<rparr>)" if "sid \<noteq> []"
  proof (cases "validate (q0\<lparr>collectionsSetId := None\<rparr>)")
    case (Inl e)
    then show ?thesis
      by (simp add: listCollections_def validate_collectionsSetId[OF that])
  next
    case (Inr q')
    have "joi_string_lowercase ''collectionsSetId'' None = Inr (collectionsSetId q')"
      using validate_InrD(1)[OF Inr] by simp
    then have "collectionsSetId q' = None"
      by (simp add: joi_string_lowercase_def)
    then have "q'\<lparr>collectionsSetId := None\<rparr> = q'"
      by simp
    then show ?thesis
      using handler_empty_set[OF assms, of st q']
      by (simp add: listCollections_def validate_collectionsSetId[OF that] Inr)
  qed
  show ?thesis
    using handler_empty_set[OF assms] resolve_empty[OF assms] a b by simp
qed

theorem empty_collection_set_witness:
  "getCollectionsIds example_env (toLowerCase ''Empty'') = Some [] \<and>
   handler example_env example_store (example_request\<lparr>collectionsSetId := Some (toLowerCase ''Empty'')\<rparr>) =
     handler example_env example_store (example_request\<lparr>collectionsSetId := None\<rparr>) \<and>
   listCollections example_env example_store (example_request\<lparr>collectionsSetId := Some ''Empty''\<rparr>) =
     listCollections example_env example_store (example_request\<lparr>collectionsSetId := None\<rparr>) \<and>
   ids_and_continuation
     (listCollections example_env example_store (example_request\<lparr>collectionsSetId := Some ''Empty''\<rparr>)) =
     Inr ([''c50'', ''c30''], Some ''30'')"
proof -
  have h: "getCollectionsIds example_env (toLowerCase ''Empty'') = Some []"
    by code_simp
  have n: "''Empty'' \<noteq> []"
    by simp
  have e: "ids_and_continuation
     (listCollections example_env example_store (example_request\<lparr>collectionsSetId := None\<rparr>)) =
     Inr ([''c50'', ''c30''], Some ''30'')"
    by code_simp
  show ?thesis
    using empty_collection_set_is_no_filter[OF h, of example_store example_request example_request]
      h n e
    by simp
qed

text \<open>
  C9. A stored volume, floor sale value or floor price is projected to the display value
  of its text, and to null exactly when it is absent: the text of a stored value is never
  empty, so the guard of the projection lets every stored value through. A stored 0 has
  the text \<^verbatim>\<open>0\<close> and is projected to the display value of \<^verbatim>\<open>0\<close>.
\<close>

theorem stored_values_projected:
  "volume_1day (o_volume (project u q (select_row st b c))) =
     map_option (\<lambda>i. formatEth u (numeric_out i)) (c_day1_volume c) \<and>
   volume_7day (o_volume (project u q (select_row st b c))) =
     map_option (\<lambda>i. formatEth u (numeric_out i)) (c_day7_volume c) \<and>
   volume_30day (o_volume (project u q (select_row st b c))) =
     map_option (\<lambda>i. formatEth u (numeric_out i)) (c_day30_volume c) \<and>
   volume_allTime (o_volume (project u q (select_row st b c))) =
     map_option (\<lambda>i. formatEth u (numeric_out i)) (c_all_time_volume c) \<and>
   floorSale_1day (o_floorSale (project u q (select_row st b c))) =
     map_option (\<lambda>i. formatEth u (numeric_out i)) (c_day1_floor_sell_value c) \<and>
   floorSale_7day (o_floorSale (project u q (select_row st b c))) =
     map_option (\<lambda>i. formatEth u (numeric_out i)) (c_day7_floor_sell_value c) \<and>
   floorSale_30day (o_floorSale (project u q (select_row st b c))) =
     map_option (\<lambda>i. formatEth u (numeric_out i)) (c_day30_floor_sell_value c) \<and>
   o_floorAskPrice (project u q (select_row st b c)) =
     map_option (\<lambda>i. formatEth u (numeric_out i)) (c_floor_sell_value c) \<and>
   numeric_out 0 = ''0''"
  by (simp add: project_def select_row_def eth_numeric_out numeric_out_0)

theorem stored_zero_witness:
  "volume_7day (o_volume (project example_env example_request
      (select_row example_store False (example_collection ''z'' addr_a (Some 0))))) = Some 0 \<and>
   volume_1day (o_volume (project example_env example_request
      (select_row example_store False (example_collection ''z'' addr_a (Some 0))))) = None"
proof -
  have f: "formatEth example_env ''0'' = 0"
    by (simp add: example_env_def numeric_in_def digit_of_def)
  show ?thesis
    using stored_values_projected[of example_env example_request example_store False
        "example_collection ''z'' addr_a (Some 0)"] f
    by (simp add: example_collection_def)
qed



end
